theory Spec2Isabelle
  imports Main "HOL-Library.Word"
begin

section \<open>Types declared outside Endpoint.h\<close>

text \<open>
  Endpoint.h includes IPEndpoint.h and BTHEndpoint.h, which are not part of the sources at
  hand. What Endpoint.h uses of them (the protocol enumeration, the relay identifiers, the two
  concrete endpoint classes with their accessors and their equality) is written here from the
  specification's data model.
\<close>

text \<open>Modelled from the spec: \<open>Network::Protocol\<close>, the enumeration
  \<open>{Unspecified, TCP, UDP, ICMP, RFCOMM}\<close>; Endpoint.h names its values through
  \<open>IPEndpoint::Protocol\<close> and \<open>BTHEndpoint::Protocol\<close>.\<close>
datatype Protocol = Protocol_Unspecified | TCP | UDP | ICMP | RFCOMM

text \<open>Modelled from the spec: \<open>RelayPort\<close> and \<open>RelayHop\<close>, unsigned integers
  where 0 means no relay circuit.\<close>
type_synonym RelayPort = nat
type_synonym RelayHop = nat

text \<open>Modelled from the spec: an IP host address, version 4 or version 6.\<close>
datatype IPAddress = IPv4 "32 word" | IPv6 "128 word"

text \<open>Modelled from the spec: the protocol an IPEndpoint stores, \<open>Protocol\<close>
  restricted to \<open>{TCP, UDP, ICMP, Unspecified}\<close>. No IPEndpoint holds RFCOMM.\<close>
datatype IP_Protocol = IP_Unspecified | IP_TCP | IP_UDP | IP_ICMP

text \<open>Modelled from the spec: the protocol a BTHEndpoint stores, \<open>Protocol\<close>
  restricted to \<open>{RFCOMM, Unspecified}\<close>. No BTHEndpoint holds TCP, UDP or ICMP.\<close>
datatype BTH_Protocol = BTH_Unspecified | BTH_RFCOMM

text \<open>Modelled from the spec: class \<open>IPEndpoint\<close>, fields
  \<open>{address, port, protocol, relay_port, relay_hop}\<close>.\<close>
record IPEndpoint =
  ip_address :: IPAddress
  ip_port :: "16 word"
  ip_protocol :: IP_Protocol
  ip_relay_port :: RelayPort
  ip_relay_hop :: RelayHop

text \<open>Modelled from the spec: class \<open>BTHEndpoint\<close>, fields
  \<open>{address (48 bit), service channel or port, protocol, relay_port, relay_hop}\<close>.\<close>
record BTHEndpoint =
  bth_address :: "48 word"
  bth_port :: "16 word"
  bth_protocol :: BTH_Protocol
  bth_relay_port :: RelayPort
  bth_relay_hop :: RelayHop

text \<open>Modelled from the spec: \<open>IPEndpoint::GetProtocol\<close> returns the stored protocol,
  one of the four values of \<open>Protocol\<close> an IPEndpoint can hold; \<open>GetRelayPort\<close> and
  \<open>GetRelayHop\<close> return the stored field, with no computation.\<close>
definition IPEndpoint_GetProtocol :: "IPEndpoint \<Rightarrow> Protocol" where
  "IPEndpoint_GetProtocol e =
     (case ip_protocol e of
        IP_Unspecified \<Rightarrow> Protocol_Unspecified
      | IP_TCP \<Rightarrow> TCP
      | IP_UDP \<Rightarrow> UDP
      | IP_ICMP \<Rightarrow> ICMP)"

definition IPEndpoint_GetRelayPort :: "IPEndpoint \<Rightarrow> RelayPort" where
  "IPEndpoint_GetRelayPort e = ip_relay_port e"

definition IPEndpoint_GetRelayHop :: "IPEndpoint \<Rightarrow> RelayHop" where
  "IPEndpoint_GetRelayHop e = ip_relay_hop e"

text \<open>Modelled from the spec: \<open>BTHEndpoint::GetProtocol\<close> returns the stored protocol,
  one of the two values of \<open>Protocol\<close> a BTHEndpoint can hold; \<open>GetRelayPort\<close> and
  \<open>GetRelayHop\<close> return the stored field, with no computation.\<close>
definition BTHEndpoint_GetProtocol :: "BTHEndpoint \<Rightarrow> Protocol" where
  "BTHEndpoint_GetProtocol e =
     (case bth_protocol e of
        BTH_Unspecified \<Rightarrow> Protocol_Unspecified
      | BTH_RFCOMM \<Rightarrow> RFCOMM)"

definition BTHEndpoint_GetRelayPort :: "BTHEndpoint \<Rightarrow> RelayPort" where
  "BTHEndpoint_GetRelayPort e = bth_relay_port e"

definition BTHEndpoint_GetRelayHop :: "BTHEndpoint \<Rightarrow> RelayHop" where
  "BTHEndpoint_GetRelayHop e = bth_relay_hop e"

text \<open>Modelled from the spec: \<open>IPEndpoint::operator==\<close>, value equality comparing
  address, port, protocol and relay coordinates.\<close>
definition IPEndpoint_eq :: "IPEndpoint \<Rightarrow> IPEndpoint \<Rightarrow> bool" where
  "IPEndpoint_eq x y \<longleftrightarrow>
     ip_address x = ip_address y \<and> ip_port x = ip_port y \<and> ip_protocol x = ip_protocol y \<and>
     ip_relay_port x = ip_relay_port y \<and> ip_relay_hop x = ip_relay_hop y"

text \<open>Modelled from the spec: \<open>BTHEndpoint::operator==\<close>, value equality comparing
  address, channel, protocol and relay coordinates.\<close>
definition BTHEndpoint_eq :: "BTHEndpoint \<Rightarrow> BTHEndpoint \<Rightarrow> bool" where
  "BTHEndpoint_eq x y \<longleftrightarrow>
     bth_address x = bth_address y \<and> bth_port x = bth_port y \<and>
     bth_protocol x = bth_protocol y \<and>
     bth_relay_port x = bth_relay_port y \<and> bth_relay_hop x = bth_relay_hop y"

section \<open>The Endpoint class\<close>

subsection \<open>Representation\<close>

text \<open>
  \<open>enum class Type : UInt8 { Unspecified, IP, BTH }\<close>: the discriminant is a byte, and the
  three enumerators are the values 0, 1 and 2. Every \<open>switch\<close> over it has a
  \<open>default\<close> branch for the other 253 values.
\<close>
type_synonym Type = "8 word"

definition Type_Unspecified :: Type where "Type_Unspecified = 0"
definition Type_IP :: Type where "Type_IP = 1"
definition Type_BTH :: Type where "Type_BTH = 2"

text \<open>
  The anonymous union \<open>{ int m_Dummy; IPEndpoint m_IPEndpoint; BTHEndpoint m_BTHEndpoint; }\<close>:
  the storage holds one member at a time. A write to a member makes it the one held; a read of
  a member that is not the one held has no defined result and is an error of the model.
\<close>
datatype Union = Dummy "32 word" | IPStore IPEndpoint | BTHStore BTHEndpoint

record Endpoint =
  m_Type :: Type
  m_Union :: Union

text \<open>
  \<open>AssertionFailed\<close>: an \<open>assert\<close> whose condition is false, in a build that keeps
  assertions. \<open>InactiveUnionMember\<close>: a read of a union member that is not the one held.
\<close>
datatype error = AssertionFailed | InactiveUnionMember

text \<open>
  \<open>assert(c)\<close>. The macro does nothing when \<open>NDEBUG\<close> is defined; the build's choice
  is the parameter \<open>ndebug\<close> of every operation that asserts.
\<close>
definition assert_cpp :: "bool \<Rightarrow> bool \<Rightarrow> error + unit" where
  "assert_cpp ndebug c = (if ndebug \<or> c then Inr () else Inl AssertionFailed)"

text \<open>
  Endpoint objects live at addresses; member functions take \<open>this\<close> and references to
  other objects as addresses into the memory, so that \<open>this == &other\<close> is a comparison
  of addresses. Memory that holds no constructed object has arbitrary contents.
\<close>
type_synonym addr = nat
type_synonym memory = "addr \<Rightarrow> Endpoint"

text \<open>Reads of \<open>m_IPEndpoint\<close> and \<open>m_BTHEndpoint\<close>.\<close>
definition read_IPEndpoint :: "Endpoint \<Rightarrow> error + IPEndpoint" where
  "read_IPEndpoint ep =
     (case m_Union ep of IPStore e \<Rightarrow> Inr e | _ \<Rightarrow> Inl InactiveUnionMember)"

definition read_BTHEndpoint :: "Endpoint \<Rightarrow> error + BTHEndpoint" where
  "read_BTHEndpoint ep =
     (case m_Union ep of BTHStore e \<Rightarrow> Inr e | _ \<Rightarrow> Inl InactiveUnionMember)"

text \<open>Writes of a union member and of \<open>m_Type\<close> in the object at an address.\<close>
definition write_Union :: "addr \<Rightarrow> Union \<Rightarrow> memory \<Rightarrow> memory" where
  "write_Union p u mem = mem(p := (mem p)\<lparr>m_Union := u\<rparr>)"

definition write_Type :: "addr \<Rightarrow> Type \<Rightarrow> memory \<Rightarrow> memory" where
  "write_Type p t mem = mem(p := (mem p)\<lparr>m_Type := t\<rparr>)"

subsection \<open>Private helpers: Copy, Move, CopyOrMove\<close>

text \<open>
  \<open>Copy(const Endpoint& other)\<close>: switch on \<open>other.m_Type\<close>; the IP and BTH cases
  assign the matching member and return \<open>other.m_Type\<close>; the Unspecified case and the
  asserting default fall to \<open>m_Dummy = 0; return Type::Unspecified\<close>. The result is the
  memory after the writes and the returned discriminant.
\<close>
definition Copy :: "bool \<Rightarrow> addr \<Rightarrow> addr \<Rightarrow> memory \<Rightarrow> error + (memory \<times> Type)" where
  "Copy ndebug this other mem =
     (if m_Type (mem other) = Type_IP then
        (case read_IPEndpoint (mem other) of
           Inl err \<Rightarrow> Inl err
         | Inr e \<Rightarrow>
             (let mem' = write_Union this (IPStore e) mem in Inr (mem', m_Type (mem' other))))
      else if m_Type (mem other) = Type_BTH then
        (case read_BTHEndpoint (mem other) of
           Inl err \<Rightarrow> Inl err
         | Inr e \<Rightarrow>
             (let mem' = write_Union this (BTHStore e) mem in Inr (mem', m_Type (mem' other))))
      else
        (case (if m_Type (mem other) = Type_Unspecified then Inr ()
               else assert_cpp ndebug False) of
           Inl err \<Rightarrow> Inl err
         | Inr _ \<Rightarrow> Inr (write_Union this (Dummy 0) mem, Type_Unspecified)))"

text \<open>
  \<open>Move(Endpoint&& other)\<close>: \<open>std::exchange(other.m_Type, Type::Unspecified)\<close> first,
  then the same switch on the exchanged value. \<open>other.m_Dummy\<close> is not written. The move
  assignment of the payload classes is declared in the absent headers; the payloads are plain
  values, so the move is taken to leave the source's union as it was. No const member reads
  the union of an object whose discriminant is Unspecified.
\<close>
definition Move :: "bool \<Rightarrow> addr \<Rightarrow> addr \<Rightarrow> memory \<Rightarrow> error + (memory \<times> Type)" where
  "Move ndebug this other mem =
     (let type = m_Type (mem other);
          mem1 = write_Type other Type_Unspecified mem
      in if type = Type_IP then
           (case read_IPEndpoint (mem1 other) of
              Inl err \<Rightarrow> Inl err
            | Inr e \<Rightarrow> Inr (write_Union this (IPStore e) mem1, type))
         else if type = Type_BTH then
           (case read_BTHEndpoint (mem1 other) of
              Inl err \<Rightarrow> Inl err
            | Inr e \<Rightarrow> Inr (write_Union this (BTHStore e) mem1, type))
         else
           (case (if type = Type_Unspecified then Inr () else assert_cpp ndebug False) of
              Inl err \<Rightarrow> Inl err
            | Inr _ \<Rightarrow> Inr (write_Union this (Dummy 0) mem1, Type_Unspecified)))"

text \<open>
  \<open>CopyOrMove(T&& other)\<close> for \<open>IPEndpoint\<close>: assign \<open>m_IPEndpoint\<close>, then switch
  on its protocol. TCP, UDP and ICMP return \<open>Type::IP\<close>; Unspecified breaks; any other
  protocol reaches \<open>assert(false)\<close>; after the switch \<open>m_Dummy = 0\<close> and
  \<open>Type::Unspecified\<close>. No IPEndpoint has a protocol of the asserting branch.
\<close>
definition CopyOrMove_IP ::
  "bool \<Rightarrow> addr \<Rightarrow> IPEndpoint \<Rightarrow> memory \<Rightarrow> error + (memory \<times> Type)" where
  "CopyOrMove_IP ndebug this other mem =
     (let mem1 = write_Union this (IPStore other) mem in
      case read_IPEndpoint (mem1 this) of
        Inl err \<Rightarrow> Inl err
      | Inr e \<Rightarrow>
          (case IPEndpoint_GetProtocol e of
             TCP \<Rightarrow> Inr (mem1, Type_IP)
           | UDP \<Rightarrow> Inr (mem1, Type_IP)
           | ICMP \<Rightarrow> Inr (mem1, Type_IP)
           | Protocol_Unspecified \<Rightarrow> Inr (write_Union this (Dummy 0) mem1, Type_Unspecified)
           | RFCOMM \<Rightarrow>
               (case assert_cpp ndebug False of
                  Inl err \<Rightarrow> Inl err
                | Inr _ \<Rightarrow> Inr (write_Union this (Dummy 0) mem1, Type_Unspecified))))"

text \<open>
  \<open>CopyOrMove(T&& other)\<close> for \<open>BTHEndpoint\<close>: assign \<open>m_BTHEndpoint\<close>, then
  switch on its protocol. RFCOMM returns \<open>Type::BTH\<close>; Unspecified breaks; any other
  protocol reaches \<open>assert(false)\<close>. No BTHEndpoint has a protocol of the asserting
  branch.
\<close>
definition CopyOrMove_BTH ::
  "bool \<Rightarrow> addr \<Rightarrow> BTHEndpoint \<Rightarrow> memory \<Rightarrow> error + (memory \<times> Type)" where
  "CopyOrMove_BTH ndebug this other mem =
     (let mem1 = write_Union this (BTHStore other) mem in
      case read_BTHEndpoint (mem1 this) of
        Inl err \<Rightarrow> Inl err
      | Inr e \<Rightarrow>
          (case BTHEndpoint_GetProtocol e of
             RFCOMM \<Rightarrow> Inr (mem1, Type_BTH)
           | Protocol_Unspecified \<Rightarrow> Inr (write_Union this (Dummy 0) mem1, Type_Unspecified)
           | _ \<Rightarrow>
               (case assert_cpp ndebug False of
                  Inl err \<Rightarrow> Inl err
                | Inr _ \<Rightarrow> Inr (write_Union this (Dummy 0) mem1, Type_Unspecified))))"

subsection \<open>Constructors and assignment\<close>

text \<open>\<open>Endpoint()\<close>: \<open>m_Type(Type::Unspecified), m_Dummy(0)\<close>.\<close>
definition Endpoint_default :: "addr \<Rightarrow> memory \<Rightarrow> memory" where
  "Endpoint_default this mem =
     mem(this := \<lparr>m_Type = Type_Unspecified, m_Union = Dummy 0\<rparr>)"

text \<open>A constructor of the form \<open>m_Type(f(...))\<close>: run the helper, store what it returns.\<close>
definition init_Type :: "addr \<Rightarrow> error + (memory \<times> Type) \<Rightarrow> error + memory" where
  "init_Type this r =
     (case r of Inl err \<Rightarrow> Inl err | Inr (mem', t) \<Rightarrow> Inr (write_Type this t mem'))"

text \<open>\<open>Endpoint(const Endpoint& other) : m_Type(Copy(other))\<close>.\<close>
definition Endpoint_copy :: "bool \<Rightarrow> addr \<Rightarrow> addr \<Rightarrow> memory \<Rightarrow> error + memory" where
  "Endpoint_copy ndebug this other mem = init_Type this (Copy ndebug this other mem)"

text \<open>\<open>Endpoint(Endpoint&& other) : m_Type(Move(std::move(other)))\<close>.\<close>
definition Endpoint_move :: "bool \<Rightarrow> addr \<Rightarrow> addr \<Rightarrow> memory \<Rightarrow> error + memory" where
  "Endpoint_move ndebug this other mem = init_Type this (Move ndebug this other mem)"

text \<open>\<open>Endpoint(T&& endpoint) : m_Type(CopyOrMove(std::forward<T>(endpoint)))\<close>, for
  \<open>T = IPEndpoint\<close> and for \<open>T = BTHEndpoint\<close>.\<close>
definition Endpoint_IP :: "bool \<Rightarrow> addr \<Rightarrow> IPEndpoint \<Rightarrow> memory \<Rightarrow> error + memory" where
  "Endpoint_IP ndebug this endpoint mem =
     init_Type this (CopyOrMove_IP ndebug this endpoint mem)"

definition Endpoint_BTH :: "bool \<Rightarrow> addr \<Rightarrow> BTHEndpoint \<Rightarrow> memory \<Rightarrow> error + memory" where
  "Endpoint_BTH ndebug this endpoint mem =
     init_Type this (CopyOrMove_BTH ndebug this endpoint mem)"

text \<open>\<open>operator=(const Endpoint& other)\<close>: \<open>if (this == &other) return *this;\<close>, then
  \<open>m_Type = Copy(other)\<close>.\<close>
definition assign_copy :: "bool \<Rightarrow> addr \<Rightarrow> addr \<Rightarrow> memory \<Rightarrow> error + memory" where
  "assign_copy ndebug this other mem =
     (if this = other then Inr mem else init_Type this (Copy ndebug this other mem))"

text \<open>\<open>operator=(Endpoint&& other)\<close>: \<open>if (this == &other) return *this;\<close>, then
  \<open>m_Type = Move(std::move(other))\<close>.\<close>
definition assign_move :: "bool \<Rightarrow> addr \<Rightarrow> addr \<Rightarrow> memory \<Rightarrow> error + memory" where
  "assign_move ndebug this other mem =
     (if this = other then Inr mem else init_Type this (Move ndebug this other mem))"

subsection \<open>Const members\<close>

text \<open>\<open>operator==\<close>: equal discriminants, then the payloads' own equality; the asserting
  default and unequal discriminants return false.\<close>
definition operator_eq :: "bool \<Rightarrow> Endpoint \<Rightarrow> Endpoint \<Rightarrow> error + bool" where
  "operator_eq ndebug this other =
     (if m_Type this = m_Type other then
        (if m_Type this = Type_IP then
           (case read_IPEndpoint this of
              Inl err \<Rightarrow> Inl err
            | Inr x \<Rightarrow>
                (case read_IPEndpoint other of
                   Inl err \<Rightarrow> Inl err
                 | Inr y \<Rightarrow> Inr (IPEndpoint_eq x y)))
         else if m_Type this = Type_BTH then
           (case read_BTHEndpoint this of
              Inl err \<Rightarrow> Inl err
            | Inr x \<Rightarrow>
                (case read_BTHEndpoint other of
                   Inl err \<Rightarrow> Inl err
                 | Inr y \<Rightarrow> Inr (BTHEndpoint_eq x y)))
         else if m_Type this = Type_Unspecified then Inr True
         else
           (case assert_cpp ndebug False of
              Inl err \<Rightarrow> Inl err
            | Inr _ \<Rightarrow> Inr False))
      else Inr False)"

text \<open>\<open>operator!=\<close>: \<open>!(*this == other)\<close>.\<close>
definition operator_neq :: "bool \<Rightarrow> Endpoint \<Rightarrow> Endpoint \<Rightarrow> error + bool" where
  "operator_neq ndebug this other =
     (case operator_eq ndebug this other of Inl err \<Rightarrow> Inl err | Inr b \<Rightarrow> Inr (\<not> b))"

definition GetType :: "Endpoint \<Rightarrow> Type" where
  "GetType this = m_Type this"

text \<open>\<open>GetIPEndpoint\<close>: \<open>assert(m_Type == Type::IP); return m_IPEndpoint;\<close>.\<close>
definition GetIPEndpoint :: "bool \<Rightarrow> Endpoint \<Rightarrow> error + IPEndpoint" where
  "GetIPEndpoint ndebug this =
     (case assert_cpp ndebug (m_Type this = Type_IP) of
        Inl err \<Rightarrow> Inl err
      | Inr _ \<Rightarrow> read_IPEndpoint this)"

text \<open>\<open>GetBTHEndpoint\<close>: \<open>assert(m_Type == Type::BTH); return m_BTHEndpoint;\<close>.\<close>
definition GetBTHEndpoint :: "bool \<Rightarrow> Endpoint \<Rightarrow> error + BTHEndpoint" where
  "GetBTHEndpoint ndebug this =
     (case assert_cpp ndebug (m_Type this = Type_BTH) of
        Inl err \<Rightarrow> Inl err
      | Inr _ \<Rightarrow> read_BTHEndpoint this)"

text \<open>\<open>GetRelayPort\<close>: the held payload's relay port; \<open>return 0\<close> after the switch for
  Unspecified and for the asserting default.\<close>
definition GetRelayPort :: "bool \<Rightarrow> Endpoint \<Rightarrow> error + RelayPort" where
  "GetRelayPort ndebug this =
     (if m_Type this = Type_IP then
        (case read_IPEndpoint this of
           Inl err \<Rightarrow> Inl err
         | Inr e \<Rightarrow> Inr (IPEndpoint_GetRelayPort e))
      else if m_Type this = Type_BTH then
        (case read_BTHEndpoint this of
           Inl err \<Rightarrow> Inl err
         | Inr e \<Rightarrow> Inr (BTHEndpoint_GetRelayPort e))
      else
        (case (if m_Type this = Type_Unspecified then Inr () else assert_cpp ndebug False) of
           Inl err \<Rightarrow> Inl err
         | Inr _ \<Rightarrow> Inr 0))"

text \<open>\<open>GetRelayHop\<close>: the held payload's relay hop; \<open>return 0\<close> after the switch.\<close>
definition GetRelayHop :: "bool \<Rightarrow> Endpoint \<Rightarrow> error + RelayHop" where
  "GetRelayHop ndebug this =
     (if m_Type this = Type_IP then
        (case read_IPEndpoint this of
           Inl err \<Rightarrow> Inl err
         | Inr e \<Rightarrow> Inr (IPEndpoint_GetRelayHop e))
      else if m_Type this = Type_BTH then
        (case read_BTHEndpoint this of
           Inl err \<Rightarrow> Inl err
         | Inr e \<Rightarrow> Inr (BTHEndpoint_GetRelayHop e))
      else
        (case (if m_Type this = Type_Unspecified then Inr () else assert_cpp ndebug False) of
           Inl err \<Rightarrow> Inl err
         | Inr _ \<Rightarrow> Inr 0))"

subsection \<open>Programs over the public operations\<close>

text \<open>
  \<open>reachable ndebug live mem\<close>: the memory \<open>mem\<close>, with constructed Endpoint objects at
  the addresses \<open>live\<close>, is the state of a program that has only used the public
  constructors and assignment operators. A constructor runs at an address that holds no
  object yet; the other operand of a copy or a move is a constructed object. An operation
  that stops on an error yields no state.
\<close>
inductive reachable :: "bool \<Rightarrow> addr set \<Rightarrow> memory \<Rightarrow> bool" for ndebug :: bool where
  start: "reachable ndebug {} mem"
| construct_default:
    "reachable ndebug live mem \<Longrightarrow> this \<notin> live \<Longrightarrow>
     reachable ndebug (insert this live) (Endpoint_default this mem)"
| construct_IP:
    "reachable ndebug live mem \<Longrightarrow> this \<notin> live \<Longrightarrow>
     Endpoint_IP ndebug this e mem = Inr mem' \<Longrightarrow>
     reachable ndebug (insert this live) mem'"
| construct_BTH:
    "reachable ndebug live mem \<Longrightarrow> this \<notin> live \<Longrightarrow>
     Endpoint_BTH ndebug this b mem = Inr mem' \<Longrightarrow>
     reachable ndebug (insert this live) mem'"
| construct_copy:
    "reachable ndebug live mem \<Longrightarrow> this \<notin> live \<Longrightarrow> other \<in> live \<Longrightarrow>
     Endpoint_copy ndebug this other mem = Inr mem' \<Longrightarrow>
     reachable ndebug (insert this live) mem'"
| construct_move:
    "reachable ndebug live mem \<Longrightarrow> this \<notin> live \<Longrightarrow> other \<in> live \<Longrightarrow>
     Endpoint_move ndebug this other mem = Inr mem' \<Longrightarrow>
     reachable ndebug (insert this live) mem'"
| copy_assignment:
    "reachable ndebug live mem \<Longrightarrow> this \<in> live \<Longrightarrow> other \<in> live \<Longrightarrow>
     assign_copy ndebug this other mem = Inr mem' \<Longrightarrow>
     reachable ndebug live mem'"
| move_assignment:
    "reachable ndebug live mem \<Longrightarrow> this \<in> live \<Longrightarrow> other \<in> live \<Longrightarrow>
     assign_move ndebug this other mem = Inr mem' \<Longrightarrow>
     reachable ndebug live mem'"

text \<open>
  The class invariant: the discriminant is one of the three enumerators; with \<open>IP\<close> the
  union holds an IPEndpoint whose protocol is TCP, UDP or ICMP; with \<open>BTH\<close> it holds a
  BTHEndpoint whose protocol is RFCOMM.
\<close>
definition Endpoint_inv :: "Endpoint \<Rightarrow> bool" where
  "Endpoint_inv ep \<longleftrightarrow>
     (if m_Type ep = Type_IP then
        (case m_Union ep of
           IPStore e \<Rightarrow> IPEndpoint_GetProtocol e \<in> {TCP, UDP, ICMP}
         | _ \<Rightarrow> False)
      else if m_Type ep = Type_BTH then
        (case m_Union ep of
           BTHStore e \<Rightarrow> BTHEndpoint_GetProtocol e = RFCOMM
         | _ \<Rightarrow> False)
      else m_Type ep = Type_Unspecified)"

text \<open>
  The value an Endpoint holds, as a copy of it would store it: discriminant and payload for
  IP and BTH, and \<open>Unspecified\<close> with \<open>m_Dummy = 0\<close> otherwise, whatever bytes the
  union still has.
\<close>
definition held_value :: "Endpoint \<Rightarrow> Endpoint" where
  "held_value ep =
     (if m_Type ep = Type_Unspecified
      then \<lparr>m_Type = Type_Unspecified, m_Union = Dummy 0\<rparr> else ep)"

text \<open>
  \<open>derived ndebug x y\<close>: \<open>y\<close> is the contents of an object obtained from an object with
  contents \<open>x\<close> by a chain of copy constructions, move constructions, copy assignments and
  move assignments, each taking the previous object of the chain as its source.
\<close>
inductive derived :: "bool \<Rightarrow> Endpoint \<Rightarrow> Endpoint \<Rightarrow> bool"
  for ndebug :: bool and x :: Endpoint where
  origin: "derived ndebug x x"
| by_copy_construction:
    "derived ndebug x (mem other) \<Longrightarrow> this \<noteq> other \<Longrightarrow>
     Endpoint_copy ndebug this other mem = Inr mem' \<Longrightarrow> derived ndebug x (mem' this)"
| by_move_construction:
    "derived ndebug x (mem other) \<Longrightarrow> this \<noteq> other \<Longrightarrow>
     Endpoint_move ndebug this other mem = Inr mem' \<Longrightarrow> derived ndebug x (mem' this)"
| by_copy_assignment:
    "derived ndebug x (mem other) \<Longrightarrow>
     assign_copy ndebug this other mem = Inr mem' \<Longrightarrow> derived ndebug x (mem' this)"
| by_move_assignment:
    "derived ndebug x (mem other) \<Longrightarrow>
     assign_move ndebug this other mem = Inr mem' \<Longrightarrow> derived ndebug x (mem' this)"

text \<open>
  \<open>holds_value_of ndebug y x\<close>: through the public const members, \<open>y\<close> shows the value
  of \<open>x\<close>: the same type, equal under \<open>operator==\<close>, the same payload from the
  accessor of that type, the same relay coordinates.
\<close>
definition holds_value_of :: "bool \<Rightarrow> Endpoint \<Rightarrow> Endpoint \<Rightarrow> bool" where
  "holds_value_of ndebug y x \<longleftrightarrow>
     GetType y = GetType x \<and>
     operator_eq ndebug y x = Inr True \<and>
     (if GetType x = Type_IP then
        (case (GetIPEndpoint ndebug y, GetIPEndpoint ndebug x) of
           (Inr e, Inr e') \<Rightarrow> e = e' | _ \<Rightarrow> False)
      else if GetType x = Type_BTH then
        (case (GetBTHEndpoint ndebug y, GetBTHEndpoint ndebug x) of
           (Inr e, Inr e') \<Rightarrow> e = e' | _ \<Rightarrow> False)
      else True) \<and>
     (case (GetRelayPort ndebug y, GetRelayPort ndebug x) of
        (Inr r, Inr r') \<Rightarrow> r = r' | _ \<Rightarrow> False) \<and>
     (case (GetRelayHop ndebug y, GetRelayHop ndebug x) of
        (Inr r, Inr r') \<Rightarrow> r = r' | _ \<Rightarrow> False)"

text \<open>
  Equality as the specification words it: the same active type and equal payloads, or both
  Unspecified. The payloads are the ones the typed accessors return, compared with the
  payload's own equality.
\<close>
definition spec_equal :: "bool \<Rightarrow> Endpoint \<Rightarrow> Endpoint \<Rightarrow> bool" where
  "spec_equal ndebug x y \<longleftrightarrow>
     (GetType x = Type_IP \<and> GetType y = Type_IP \<and>
      (case (GetIPEndpoint ndebug x, GetIPEndpoint ndebug y) of
         (Inr e, Inr e') \<Rightarrow> IPEndpoint_eq e e' | _ \<Rightarrow> False)) \<or>
     (GetType x = Type_BTH \<and> GetType y = Type_BTH \<and>
      (case (GetBTHEndpoint ndebug x, GetBTHEndpoint ndebug y) of
         (Inr e, Inr e') \<Rightarrow> BTHEndpoint_eq e e' | _ \<Rightarrow> False)) \<or>
     (GetType x = Type_Unspecified \<and> GetType y = Type_Unspecified)"

subsection \<open>Concrete values\<close>

text \<open>Memory before any construction: a discriminant out of range and a stray
  \<open>m_Dummy\<close> at every address.\<close>
definition raw_memory :: memory where
  "raw_memory = (\<lambda>_. \<lparr>m_Type = 165, m_Union = Dummy 99\<rparr>)"

text \<open>The specification's scenario: 10.0.0.5, port 9000, TCP, relay port 42, relay hop 2.\<close>
definition example_IP :: IPEndpoint where
  "example_IP =
     \<lparr>ip_address = IPv4 167772165, ip_port = 9000, ip_protocol = IP_TCP,
      ip_relay_port = 42, ip_relay_hop = 2\<rparr>"

definition example_BTH :: BTHEndpoint where
  "example_BTH =
     \<lparr>bth_address = 1, bth_port = 5, bth_protocol = BTH_RFCOMM,
      bth_relay_port = 7, bth_relay_hop = 1\<rparr>"

text \<open>An IPEndpoint that is not configured yet: the scenario's address, port and relay
  coordinates with protocol Unspecified; and a BTHEndpoint likewise.\<close>
definition unconfigured_IP :: IPEndpoint where
  "unconfigured_IP = example_IP\<lparr>ip_protocol := IP_Unspecified\<rparr>"

definition unconfigured_BTH :: BTHEndpoint where
  "unconfigured_BTH = example_BTH\<lparr>bth_protocol := BTH_Unspecified\<rparr>"

text \<open>A state with two Unspecified objects, at addresses 0 and 1.\<close>
definition two_unspecified :: memory where
  "two_unspecified =
     raw_memory(0 := \<lparr>m_Type = Type_Unspecified, m_Union = Dummy 0\<rparr>,
                1 := \<lparr>m_Type = Type_Unspecified, m_Union = Dummy 0\<rparr>)"

text \<open>A state with two constructed objects: \<open>Endpoint(example_IP)\<close> at address 0 and
  \<open>Endpoint(example_BTH)\<close> at address 1.\<close>
definition two_objects :: memory where
  "two_objects =
     raw_memory(0 := \<lparr>m_Type = Type_IP, m_Union = IPStore example_IP\<rparr>,
                1 := \<lparr>m_Type = Type_BTH, m_Union = BTHStore example_BTH\<rparr>)"

section \<open>Basic facts\<close>

lemma Type_distinct:
  "Type_IP \<noteq> Type_Unspecified" "Type_BTH \<noteq> Type_Unspecified" "Type_IP \<noteq> Type_BTH"
  "Type_Unspecified \<noteq> Type_IP" "Type_Unspecified \<noteq> Type_BTH" "Type_BTH \<noteq> Type_IP"
  by (simp_all add: Type_IP_def Type_BTH_def Type_Unspecified_def)

lemmas helper_defs = init_Type_def write_Type_def write_Union_def read_IPEndpoint_def
  read_BTHEndpoint_def assert_cpp_def

lemma Endpoint_overwrite [simp]:
  "(r::Endpoint)\<lparr>m_Union := u, m_Type := t\<rparr> = \<lparr>m_Type = t, m_Union = u\<rparr>"
  "(r::Endpoint)\<lparr>m_Type := t, m_Union := u\<rparr> = \<lparr>m_Type = t, m_Union = u\<rparr>"
  by (cases r, simp)+

lemma IPEndpoint_GetProtocol_range:
  "IPEndpoint_GetProtocol e \<in> {Protocol_Unspecified, TCP, UDP, ICMP}"
  by (cases "ip_protocol e") (simp_all add: IPEndpoint_GetProtocol_def)

lemma BTHEndpoint_GetProtocol_range:
  "BTHEndpoint_GetProtocol e \<in> {Protocol_Unspecified, RFCOMM}"
  by (cases "bth_protocol e") (simp_all add: BTHEndpoint_GetProtocol_def)

lemma Endpoint_IP_eq:
  "Endpoint_IP ndebug this e mem =
     (if IPEndpoint_GetProtocol e \<in> {TCP, UDP, ICMP}
      then Inr (mem(this := \<lparr>m_Type = Type_IP, m_Union = IPStore e\<rparr>))
      else Inr (mem(this := \<lparr>m_Type = Type_Unspecified, m_Union = Dummy 0\<rparr>)))"
  using IPEndpoint_GetProtocol_range [of e]
  by (cases "IPEndpoint_GetProtocol e")
     (simp_all add: Endpoint_IP_def CopyOrMove_IP_def helper_defs)

lemma Endpoint_BTH_eq:
  "Endpoint_BTH ndebug this e mem =
     (if BTHEndpoint_GetProtocol e = RFCOMM
      then Inr (mem(this := \<lparr>m_Type = Type_BTH, m_Union = BTHStore e\<rparr>))
      else Inr (mem(this := \<lparr>m_Type = Type_Unspecified, m_Union = Dummy 0\<rparr>)))"
  using BTHEndpoint_GetProtocol_range [of e]
  by (cases "BTHEndpoint_GetProtocol e")
     (simp_all add: Endpoint_BTH_def CopyOrMove_BTH_def helper_defs)

lemma inv_cases:
  assumes "Endpoint_inv ep"
  obtains (Unspecified) "m_Type ep = Type_Unspecified"
  | (IP) e where "ep = \<lparr>m_Type = Type_IP, m_Union = IPStore e\<rparr>" "IPEndpoint_GetProtocol e \<in> {TCP, UDP, ICMP}"
  | (BTH) e where "ep = \<lparr>m_Type = Type_BTH, m_Union = BTHStore e\<rparr>" "BTHEndpoint_GetProtocol e = RFCOMM"
  using assms unfolding Endpoint_inv_def
  by (cases ep; cases "m_Union ep") (auto split: if_splits)

lemma Endpoint_copy_eq:
  assumes "Endpoint_inv (mem other)" "this \<noteq> other"
  shows "Endpoint_copy ndebug this other mem = Inr (mem(this := held_value (mem other)))"
  using assms(1)
proof (cases rule: inv_cases)
  case Unspecified
  then show ?thesis using assms(2)
    by (auto simp add: Endpoint_copy_def Copy_def helper_defs held_value_def Type_distinct fun_eq_iff)
next
  case (IP e)
  then show ?thesis using assms(2)
    by (auto simp add: Endpoint_copy_def Copy_def helper_defs held_value_def Type_distinct fun_eq_iff)
next
  case (BTH e)
  then show ?thesis using assms(2)
    by (auto simp add: Endpoint_copy_def Copy_def helper_defs held_value_def Type_distinct fun_eq_iff)
qed

lemma Endpoint_move_eq:
  assumes "Endpoint_inv (mem other)" "this \<noteq> other"
  shows "Endpoint_move ndebug this other mem =
    Inr (mem(other := (mem other)\<lparr>m_Type := Type_Unspecified\<rparr>, this := held_value (mem other)))"
  using assms(1)
proof (cases rule: inv_cases)
  case Unspecified
  then show ?thesis using assms(2)
    by (auto simp add: Endpoint_move_def Move_def helper_defs held_value_def Type_distinct fun_eq_iff Let_def)
next
  case (IP e)
  then show ?thesis using assms(2)
    by (auto simp add: Endpoint_move_def Move_def helper_defs held_value_def Type_distinct fun_eq_iff Let_def)
next
  case (BTH e)
  then show ?thesis using assms(2)
    by (auto simp add: Endpoint_move_def Move_def helper_defs held_value_def Type_distinct fun_eq_iff Let_def)
qed


lemma assign_copy_eq:
  assumes "Endpoint_inv (mem other)"
  shows "assign_copy ndebug this other mem =
    Inr (if this = other then mem else mem(this := held_value (mem other)))"
  using assms Endpoint_copy_eq [of mem other this ndebug]
  by (simp add: assign_copy_def Endpoint_copy_def)

lemma assign_move_eq:
  assumes "Endpoint_inv (mem other)"
  shows "assign_move ndebug this other mem =
    Inr (if this = other then mem
         else mem(other := (mem other)\<lparr>m_Type := Type_Unspecified\<rparr>,
                  this := held_value (mem other)))"
  using assms Endpoint_move_eq [of mem other this ndebug]
  by (simp add: assign_move_def Endpoint_move_def)

lemma held_value_inv: "Endpoint_inv ep \<Longrightarrow> Endpoint_inv (held_value ep)"
  by (auto simp add: held_value_def Endpoint_inv_def Type_distinct split: if_splits)

lemma moved_from_inv: "Endpoint_inv (ep\<lparr>m_Type := Type_Unspecified\<rparr>)"
  by (simp add: Endpoint_inv_def Type_distinct)

lemma unspecified_inv: "Endpoint_inv \<lparr>m_Type = Type_Unspecified, m_Union = u\<rparr>"
  by (simp add: Endpoint_inv_def Type_distinct)

lemma IP_inv:
  "IPEndpoint_GetProtocol e \<in> {TCP, UDP, ICMP} \<Longrightarrow>
   Endpoint_inv \<lparr>m_Type = Type_IP, m_Union = IPStore e\<rparr>"
  by (simp add: Endpoint_inv_def)

lemma BTH_inv:
  "BTHEndpoint_GetProtocol e = RFCOMM \<Longrightarrow>
   Endpoint_inv \<lparr>m_Type = Type_BTH, m_Union = BTHStore e\<rparr>"
  by (simp add: Endpoint_inv_def Type_distinct)

lemma reachable_inv:
  "reachable ndebug live mem \<Longrightarrow> p \<in> live \<Longrightarrow> Endpoint_inv (mem p)"
proof (induction arbitrary: p rule: reachable.induct)
  case (start mem)
  then show ?case by simp
next
  case (construct_default live mem this)
  then show ?case by (auto simp: Endpoint_default_def unspecified_inv)
next
  case (construct_IP live mem this e mem')
  then show ?case
    by (auto simp: Endpoint_IP_eq unspecified_inv IP_inv split: if_splits)
next
  case (construct_BTH live mem this b mem')
  then show ?case
    by (auto simp: Endpoint_BTH_eq unspecified_inv BTH_inv split: if_splits)
next
  case (construct_copy live mem this other mem')
  have "Endpoint_inv (mem other)" and "this \<noteq> other"
    using construct_copy by auto
  with construct_copy show ?case
    by (auto simp: Endpoint_copy_eq held_value_inv)
next
  case (construct_move live mem this other mem')
  have "Endpoint_inv (mem other)" and "this \<noteq> other"
    using construct_move by auto
  with construct_move show ?case
    by (auto simp: Endpoint_move_eq held_value_inv moved_from_inv)
next
  case (copy_assignment live mem this other mem')
  have "Endpoint_inv (mem other)"
    using copy_assignment by auto
  with copy_assignment show ?case
    by (auto simp: assign_copy_eq held_value_inv split: if_splits)
next
  case (move_assignment live mem this other mem')
  have "Endpoint_inv (mem other)"
    using move_assignment by auto
  with move_assignment show ?case
    by (auto simp: assign_move_eq held_value_inv moved_from_inv split: if_splits)
qed

lemma inv_GetIPEndpoint:
  "Endpoint_inv ep \<Longrightarrow> GetType ep = Type_IP \<Longrightarrow>
   \<exists>e. GetIPEndpoint ndebug ep = Inr e \<and> m_Union ep = IPStore e \<and>
       IPEndpoint_GetProtocol e \<in> {TCP, UDP, ICMP}"
  by (erule inv_cases)
     (auto simp: GetType_def GetIPEndpoint_def helper_defs Type_distinct)

lemma inv_GetBTHEndpoint:
  "Endpoint_inv ep \<Longrightarrow> GetType ep = Type_BTH \<Longrightarrow>
   \<exists>e. GetBTHEndpoint ndebug ep = Inr e \<and> m_Union ep = BTHStore e \<and>
       BTHEndpoint_GetProtocol e = RFCOMM"
  by (erule inv_cases)
     (auto simp: GetType_def GetBTHEndpoint_def helper_defs Type_distinct)

section \<open>The class invariant\<close>

text \<open>
  C1. In every state reachable through the public operations (default construction,
  construction from a concrete endpoint, copy and move construction, copy and move
  assignment), every constructed Endpoint with \<open>GetType() == IP\<close> stores an IPEndpoint
  whose protocol is TCP, UDP or ICMP, and every constructed Endpoint with
  \<open>GetType() == BTH\<close> stores a BTHEndpoint whose protocol is RFCOMM. The states are
  closed under the operations, so each of them preserves the invariant.
\<close>
theorem reachable_protocol_invariant:
  assumes "reachable ndebug live mem" and "this \<in> live"
  shows "(GetType (mem this) = Type_IP \<longrightarrow>
            (\<exists>e. GetIPEndpoint ndebug (mem this) = Inr e \<and>
                 IPEndpoint_GetProtocol e \<in> {TCP, UDP, ICMP})) \<and>
         (GetType (mem this) = Type_BTH \<longrightarrow>
            (\<exists>e. GetBTHEndpoint ndebug (mem this) = Inr e \<and>
                 BTHEndpoint_GetProtocol e = RFCOMM))"
proof -
  have inv: "Endpoint_inv (mem this)"
    using assms by (rule reachable_inv)
  show ?thesis
    using inv_GetIPEndpoint [OF inv, of ndebug] inv_GetBTHEndpoint [OF inv, of ndebug]
    by blast
qed

theorem reachable_protocol_invariant_witness:
  "\<exists>mem. Endpoint_IP False 0 example_IP raw_memory = Inr mem \<and>
         reachable False {0} mem \<and> GetType (mem 0) = Type_IP \<and>
         (\<exists>e. GetIPEndpoint False (mem 0) = Inr e \<and>
              IPEndpoint_GetProtocol e \<in> {TCP, UDP, ICMP})"
proof -
  let ?mem = "raw_memory(0 := \<lparr>m_Type = Type_IP, m_Union = IPStore example_IP\<rparr>)"
  have c: "Endpoint_IP False 0 example_IP raw_memory = Inr ?mem"
    by (simp add: Endpoint_IP_eq IPEndpoint_GetProtocol_def example_IP_def)
  have r: "reachable False {0} ?mem"
    by (rule reachable.construct_IP [OF reachable.start _ c]) simp
  have t: "GetType (?mem 0) = Type_IP"
    by (simp add: GetType_def)
  from reachable_protocol_invariant [OF r, of 0] t
  have "\<exists>e. GetIPEndpoint False (?mem 0) = Inr e \<and>
            IPEndpoint_GetProtocol e \<in> {TCP, UDP, ICMP}"
    by simp
  with c r t show ?thesis by blast
qed

section \<open>Construction from a concrete endpoint\<close>

text \<open>
  C2. For every IPEndpoint \<open>e\<close> whose protocol is TCP, UDP or ICMP, the constructor
  \<open>Endpoint(e)\<close> returns, the object has \<open>GetType() == IP\<close>, and
  \<open>GetIPEndpoint()\<close> returns \<open>e\<close>, equal to \<open>e\<close> under the payload's own
  equality; likewise for every BTHEndpoint whose protocol is RFCOMM, with \<open>BTH\<close> and
  \<open>GetBTHEndpoint()\<close>.
\<close>
theorem construct_round_trip:
  "(IPEndpoint_GetProtocol e \<in> {TCP, UDP, ICMP} \<longrightarrow>
      (\<exists>mem' r. Endpoint_IP ndebug this e mem = Inr mem' \<and>
         GetType (mem' this) = Type_IP \<and>
         GetIPEndpoint ndebug (mem' this) = Inr r \<and> r = e \<and> IPEndpoint_eq r e)) \<and>
   (BTHEndpoint_GetProtocol b = RFCOMM \<longrightarrow>
      (\<exists>mem' r. Endpoint_BTH ndebug this b mem = Inr mem' \<and>
         GetType (mem' this) = Type_BTH \<and>
         GetBTHEndpoint ndebug (mem' this) = Inr r \<and> r = b \<and> BTHEndpoint_eq r b))"
  by (simp add: Endpoint_IP_eq Endpoint_BTH_eq GetType_def GetIPEndpoint_def
      GetBTHEndpoint_def helper_defs IPEndpoint_eq_def BTHEndpoint_eq_def)

theorem construct_round_trip_witness:
  "IPEndpoint_GetProtocol example_IP \<in> {TCP, UDP, ICMP} \<and>
   BTHEndpoint_GetProtocol example_BTH = RFCOMM \<and>
   (\<exists>mem'. Endpoint_IP False 0 example_IP raw_memory = Inr mem' \<and>
      GetType (mem' 0) = Type_IP \<and> GetIPEndpoint False (mem' 0) = Inr example_IP) \<and>
   (\<exists>mem'. Endpoint_BTH False 0 example_BTH raw_memory = Inr mem' \<and>
      GetType (mem' 0) = Type_BTH \<and> GetBTHEndpoint False (mem' 0) = Inr example_BTH)"
proof -
  have p: "IPEndpoint_GetProtocol example_IP \<in> {TCP, UDP, ICMP}"
    by (simp add: IPEndpoint_GetProtocol_def example_IP_def)
  have q: "BTHEndpoint_GetProtocol example_BTH = RFCOMM"
    by (simp add: BTHEndpoint_GetProtocol_def example_BTH_def)
  from p q construct_round_trip [of example_IP False 0 raw_memory example_BTH]
  show ?thesis by blast
qed

text \<open>
  C3. Constructing an Endpoint from a concrete IPEndpoint or BTHEndpoint whose protocol is
  Unspecified, or is not in the set its family accepts (TCP, UDP, ICMP for IP; RFCOMM for
  BTH), returns, in a build with and in a build without assertions, and yields an Endpoint
  with \<open>GetType() == Unspecified\<close>: no assertion fails and no inactive union member is
  read.
\<close>
theorem construct_degrades_silently:
  "(IPEndpoint_GetProtocol e = Protocol_Unspecified \<or>
    IPEndpoint_GetProtocol e \<notin> {TCP, UDP, ICMP} \<longrightarrow>
      (\<exists>mem'. Endpoint_IP ndebug this e mem = Inr mem' \<and>
         GetType (mem' this) = Type_Unspecified)) \<and>
   (BTHEndpoint_GetProtocol b = Protocol_Unspecified \<or>
    BTHEndpoint_GetProtocol b \<noteq> RFCOMM \<longrightarrow>
      (\<exists>mem'. Endpoint_BTH ndebug this b mem = Inr mem' \<and>
         GetType (mem' this) = Type_Unspecified))"
  by (auto simp add: Endpoint_IP_eq Endpoint_BTH_eq GetType_def)

theorem construct_degrades_silently_witness:
  "IPEndpoint_GetProtocol unconfigured_IP = Protocol_Unspecified \<and>
   BTHEndpoint_GetProtocol unconfigured_BTH = Protocol_Unspecified \<and>
   (\<exists>mem'. Endpoint_IP False 0 unconfigured_IP raw_memory = Inr mem' \<and>
      GetType (mem' 0) = Type_Unspecified) \<and>
   (\<exists>mem'. Endpoint_BTH False 0 unconfigured_BTH raw_memory = Inr mem' \<and>
      GetType (mem' 0) = Type_Unspecified) \<and>
   (\<exists>mem'. Endpoint_IP True 0 unconfigured_IP raw_memory = Inr mem' \<and>
      GetType (mem' 0) = Type_Unspecified) \<and>
   (\<exists>mem'. Endpoint_BTH True 0 unconfigured_BTH raw_memory = Inr mem' \<and>
      GetType (mem' 0) = Type_Unspecified)"
proof -
  have p: "IPEndpoint_GetProtocol unconfigured_IP = Protocol_Unspecified"
    by (simp add: IPEndpoint_GetProtocol_def unconfigured_IP_def)
  have q: "BTHEndpoint_GetProtocol unconfigured_BTH = Protocol_Unspecified"
    by (simp add: BTHEndpoint_GetProtocol_def unconfigured_BTH_def)
  show ?thesis
    using p q
      construct_degrades_silently [of unconfigured_IP False 0 raw_memory unconfigured_BTH]
      construct_degrades_silently [of unconfigured_IP True 0 raw_memory unconfigured_BTH]
    by simp
qed

section \<open>Self-assignment\<close>

text \<open>
  C8. Copy assignment and move assignment of an Endpoint to itself return at the identity
  check and leave the whole memory as it was: the object's discriminant, its payload and
  every accessor's result are what they were before the assignment.
\<close>
theorem self_assignment_unchanged:
  "assign_copy ndebug a a mem = Inr mem \<and> assign_move ndebug a a mem = Inr mem"
  by (simp add: assign_copy_def assign_move_def)

section \<open>Moves\<close>

lemmas accessor_defs = GetType_def GetIPEndpoint_def GetBTHEndpoint_def GetRelayPort_def
  GetRelayHop_def operator_eq_def

lemma holds_value_of_held_value:
  "Endpoint_inv x \<Longrightarrow> holds_value_of ndebug (held_value x) x"
  by (erule inv_cases)
     (auto simp: holds_value_of_def held_value_def accessor_defs helper_defs Type_distinct
        IPEndpoint_eq_def BTHEndpoint_eq_def)

text \<open>
  C4. For every constructed Endpoint \<open>a\<close> and every other object \<open>b\<close>, after
  \<open>b = std::move(a)\<close>, and after the move construction of \<open>b\<close> from \<open>a\<close>,
  \<open>a.GetType() == Unspecified\<close> and \<open>b\<close> holds the value \<open>a\<close> held before the
  move: the same type, equal to it under \<open>operator==\<close>, the same payload and relay
  coordinates.
\<close>
theorem move_transfers_value:
  assumes "reachable ndebug live mem" and "a \<in> live" and "b \<noteq> a"
  shows "(\<exists>mem'. assign_move ndebug b a mem = Inr mem' \<and>
            GetType (mem' a) = Type_Unspecified \<and>
            holds_value_of ndebug (mem' b) (mem a)) \<and>
         (\<exists>mem'. Endpoint_move ndebug b a mem = Inr mem' \<and>
            GetType (mem' a) = Type_Unspecified \<and>
            holds_value_of ndebug (mem' b) (mem a))"
proof -
  have inv: "Endpoint_inv (mem a)"
    using assms(1,2) by (rule reachable_inv)
  have v: "holds_value_of ndebug (held_value (mem a)) (mem a)"
    using inv by (rule holds_value_of_held_value)
  show ?thesis
    using inv v assms(3)
    by (simp add: assign_move_eq Endpoint_move_eq GetType_def)
qed


lemma reachable_two_objects: "reachable ndebug {0, 1} two_objects"
proof -
  let ?m1 = "raw_memory(0 := \<lparr>m_Type = Type_IP, m_Union = IPStore example_IP\<rparr>)"
  have c1: "Endpoint_IP ndebug 0 example_IP raw_memory = Inr ?m1"
    by (simp add: Endpoint_IP_eq IPEndpoint_GetProtocol_def example_IP_def)
  have r1: "reachable ndebug {0} ?m1"
    by (rule reachable.construct_IP [OF reachable.start _ c1]) simp
  have c2: "Endpoint_BTH ndebug 1 example_BTH ?m1 = Inr two_objects"
    by (simp add: Endpoint_BTH_eq BTHEndpoint_GetProtocol_def example_BTH_def two_objects_def)
  have "reachable ndebug (insert 1 {0}) two_objects"
    by (rule reachable.construct_BTH [OF r1 _ c2]) simp
  then show ?thesis by (simp add: insert_commute)
qed

theorem move_transfers_value_witness:
  "reachable False {0, 1} two_objects \<and>
   (\<exists>mem'. assign_move False 1 0 two_objects = Inr mem' \<and>
      GetType (mem' 0) = Type_Unspecified \<and>
      holds_value_of False (mem' 1) (two_objects 0)) \<and>
   (\<exists>mem'. Endpoint_move False 2 0 two_objects = Inr mem' \<and>
      GetType (mem' 0) = Type_Unspecified \<and>
      holds_value_of False (mem' 2) (two_objects 0))"
  using move_transfers_value [OF reachable_two_objects, of 0 1 False]
    move_transfers_value [OF reachable_two_objects, of 0 2 False]
    reachable_two_objects [of False]
  by simp


lemma operator_eq_total:
  "Endpoint_inv x \<Longrightarrow> Endpoint_inv y \<Longrightarrow> \<exists>r. operator_eq ndebug x y = Inr r"
  by (erule inv_cases; erule inv_cases)
     (auto simp: operator_eq_def helper_defs Type_distinct)

lemma unspecified_observations:
  "m_Type ep = Type_Unspecified \<Longrightarrow>
   GetRelayPort ndebug ep = Inr 0 \<and> GetRelayHop ndebug ep = Inr 0 \<and>
   operator_eq ndebug ep \<lparr>m_Type = Type_Unspecified, m_Union = u\<rparr> = Inr True \<and>
   operator_eq ndebug \<lparr>m_Type = Type_Unspecified, m_Union = u\<rparr> ep = Inr True"
  by (simp add: accessor_defs Type_distinct)

text \<open>
  C10. After an Endpoint \<open>a\<close> is moved from, by move assignment or move construction
  into another object, it behaves as a default-constructed Endpoint: \<open>GetType()\<close> is
  Unspecified, \<open>GetRelayPort()\<close> and \<open>GetRelayHop()\<close> are 0, it is equal to
  \<open>Endpoint{}\<close> on either side of \<open>operator==\<close>, comparing it with any constructed
  object returns, and assigning any constructed object to it returns and gives it that
  object's value.
\<close>
theorem moved_from_is_default:
  assumes "reachable ndebug live mem" and "a \<in> live" and "b \<noteq> a"
  shows "\<exists>mem'. assign_move ndebug b a mem = Inr mem' \<and>
           Endpoint_move ndebug b a mem = Inr mem' \<and>
           GetType (mem' a) = Type_Unspecified \<and>
           GetRelayPort ndebug (mem' a) = Inr 0 \<and>
           GetRelayHop ndebug (mem' a) = Inr 0 \<and>
           operator_eq ndebug (mem' a) (Endpoint_default d mem' d) = Inr True \<and>
           operator_eq ndebug (Endpoint_default d mem' d) (mem' a) = Inr True \<and>
           (\<forall>c\<in>live. \<exists>r. operator_eq ndebug (mem' a) (mem' c) = Inr r) \<and>
           (\<forall>c\<in>live. \<exists>mem''. assign_copy ndebug a c mem' = Inr mem'' \<and>
                          holds_value_of ndebug (mem'' a) (mem' c))"
proof -
  have inv: "Endpoint_inv (mem a)"
    using assms(1,2) by (rule reachable_inv)
  let ?mem' = "mem(a := (mem a)\<lparr>m_Type := Type_Unspecified\<rparr>, b := held_value (mem a))"
  have m: "assign_move ndebug b a mem = Inr ?mem'" "Endpoint_move ndebug b a mem = Inr ?mem'"
    using inv assms(3) by (simp_all add: assign_move_eq Endpoint_move_eq)
  have ta: "m_Type (?mem' a) = Type_Unspecified"
    using assms(3) by simp
  have inv': "Endpoint_inv (?mem' c)" if "c \<in> live \<or> c = a \<or> c = b" for c
    using that reachable_inv [OF assms(1)] inv
    by (auto simp: held_value_inv moved_from_inv)
  have cmp: "\<forall>c\<in>live. \<exists>r. operator_eq ndebug (?mem' a) (?mem' c) = Inr r"
    using inv' operator_eq_total by blast
  have re: "\<forall>c\<in>live. \<exists>mem''. assign_copy ndebug a c ?mem' = Inr mem'' \<and>
              holds_value_of ndebug (mem'' a) (?mem' c)"
  proof
    fix c assume c: "c \<in> live"
    have i: "Endpoint_inv (?mem' c)" using c inv' by blast
    show "\<exists>mem''. assign_copy ndebug a c ?mem' = Inr mem'' \<and>
              holds_value_of ndebug (mem'' a) (?mem' c)"
    proof (cases "a = c")
      case True
      have "holds_value_of ndebug (held_value (?mem' c)) (?mem' c)"
        using i by (rule holds_value_of_held_value)
      moreover have "held_value (?mem' c) = Endpoint_default d ?mem' d"
        using True ta by (simp add: held_value_def Endpoint_default_def)
      ultimately have "holds_value_of ndebug (?mem' a) (?mem' c)"
        using True ta unspecified_observations [OF ta, of ndebug "Dummy 0"]
        by (simp add: holds_value_of_def accessor_defs Type_distinct)
      then show ?thesis using True by (simp add: assign_copy_def)
    next
      case False
      then show ?thesis
        using i holds_value_of_held_value [OF i, of ndebug]
          assign_copy_eq [of ?mem' c ndebug a]
        by simp
    qed
  qed
  show ?thesis
    using m ta cmp re unspecified_observations [OF ta, of ndebug "Dummy 0"]
    by (simp add: GetType_def Endpoint_default_def)
qed

theorem moved_from_is_default_witness:
  "\<exists>mem'. assign_move False 1 0 two_objects = Inr mem' \<and>
     GetType (mem' 0) = Type_Unspecified \<and>
     GetRelayPort False (mem' 0) = Inr 0 \<and>
     GetRelayHop False (mem' 0) = Inr 0 \<and>
     operator_eq False (mem' 0) (Endpoint_default 2 mem' 2) = Inr True \<and>
     (\<exists>r. operator_eq False (mem' 0) (mem' 1) = Inr r) \<and>
     (\<exists>mem''. assign_copy False 0 1 mem' = Inr mem'' \<and>
        holds_value_of False (mem'' 0) (mem' 1))"
  using moved_from_is_default [OF reachable_two_objects, of 0 1 False 2]
  by auto

section \<open>Equality\<close>

lemma operator_eq_spec_equal:
  "Endpoint_inv x \<Longrightarrow> Endpoint_inv y \<Longrightarrow>
   operator_eq ndebug x y = Inr (spec_equal ndebug x y)"
  by (erule inv_cases; erule inv_cases)
     (auto simp: spec_equal_def accessor_defs helper_defs Type_distinct)

text \<open>
  C5. For every two constructed Endpoints \<open>a\<close> and \<open>b\<close>, \<open>a == b\<close> returns
  true exactly when they have the same active type and equal payloads, or are both
  Unspecified; an Endpoint holding an IPEndpoint and one holding a BTHEndpoint compare
  unequal, in either order; two default-constructed Endpoints compare equal.
\<close>
theorem equality_structural:
  assumes "reachable ndebug live mem" and "a \<in> live" and "b \<in> live"
  shows "operator_eq ndebug (mem a) (mem b) = Inr (spec_equal ndebug (mem a) (mem b)) \<and>
         (GetType (mem a) = Type_IP \<and> GetType (mem b) = Type_BTH \<longrightarrow>
            operator_eq ndebug (mem a) (mem b) = Inr False \<and>
            operator_eq ndebug (mem b) (mem a) = Inr False) \<and>
         operator_eq ndebug (Endpoint_default q (Endpoint_default p mem) p)
            (Endpoint_default q (Endpoint_default p mem) q) = Inr True"
proof -
  have ia: "Endpoint_inv (mem a)" and ib: "Endpoint_inv (mem b)"
    using assms reachable_inv by blast+
  have 1: "operator_eq ndebug (mem a) (mem b) = Inr (spec_equal ndebug (mem a) (mem b))"
    using ia ib by (rule operator_eq_spec_equal)
  have 2: "GetType (mem a) = Type_IP \<and> GetType (mem b) = Type_BTH \<longrightarrow>
      operator_eq ndebug (mem a) (mem b) = Inr False \<and>
      operator_eq ndebug (mem b) (mem a) = Inr False"
    by (simp add: operator_eq_def GetType_def Type_distinct)
  have 3: "operator_eq ndebug (Endpoint_default q (Endpoint_default p mem) p)
            (Endpoint_default q (Endpoint_default p mem) q) = Inr True"
    by (simp add: operator_eq_def Endpoint_default_def Type_distinct)
  show ?thesis using 1 2 3 by blast
qed

theorem equality_structural_witness:
  "reachable False {0, 1} two_objects \<and>
   GetType (two_objects 0) = Type_IP \<and> GetType (two_objects 1) = Type_BTH \<and>
   operator_eq False (two_objects 0) (two_objects 1) = Inr False \<and>
   operator_eq False (two_objects 1) (two_objects 0) = Inr False \<and>
   operator_eq False (two_objects 0) (two_objects 0) = Inr True \<and>
   spec_equal False (two_objects 0) (two_objects 0)"
proof -
  have t: "GetType (two_objects 0) = Type_IP" "GetType (two_objects 1) = Type_BTH"
    by (simp_all add: two_objects_def GetType_def)
  have s: "spec_equal False (two_objects 0) (two_objects 0)"
    by (simp add: spec_equal_def two_objects_def accessor_defs helper_defs IPEndpoint_eq_def)
  have d: "operator_eq False (two_objects 0) (two_objects 1) = Inr False \<and>
      operator_eq False (two_objects 1) (two_objects 0) = Inr False"
    using t equality_structural [OF reachable_two_objects, of 0 1 False] by blast
  have e: "operator_eq False (two_objects 0) (two_objects 0) = Inr True"
    using s equality_structural [OF reachable_two_objects, of 0 0 False] by simp
  show ?thesis
    using t s d e reachable_two_objects [of False] by blast
qed

section \<open>The asserting default branches\<close>

lemma Copy_total:
  "Endpoint_inv (mem a) \<Longrightarrow> \<exists>r. Copy ndebug this a mem = Inr r"
  by (erule inv_cases) (auto simp: Copy_def helper_defs Type_distinct Let_def)

lemma Move_total:
  "Endpoint_inv (mem a) \<Longrightarrow> \<exists>r. Move ndebug this a mem = Inr r"
  by (erule inv_cases) (auto simp: Move_def helper_defs Type_distinct Let_def)

lemma relay_total:
  "Endpoint_inv x \<Longrightarrow>
   (\<exists>r. GetRelayPort ndebug x = Inr r) \<and> (\<exists>r. GetRelayHop ndebug x = Inr r)"
  by (erule inv_cases) (auto simp: accessor_defs helper_defs Type_distinct)

lemma inv_Type_range:
  "Endpoint_inv x \<Longrightarrow> m_Type x \<in> {Type_Unspecified, Type_IP, Type_BTH}"
  by (erule inv_cases) auto

text \<open>
  C9. In every state reachable through the public operations, the discriminant of every
  constructed Endpoint is Unspecified, IP or BTH, so the switches of \<open>operator==\<close>,
  \<open>GetRelayPort\<close>, \<open>GetRelayHop\<close>, \<open>Copy\<close> and \<open>Move\<close> take one of
  their three named cases; each of the five returns a result, also in a build that keeps
  assertions, and none reads a union member that is not held.
\<close>
theorem assert_branches_unreachable:
  assumes "reachable ndebug live mem" and "a \<in> live" and "b \<in> live"
  shows "GetType (mem a) \<in> {Type_Unspecified, Type_IP, Type_BTH} \<and>
         (\<exists>r. operator_eq ndebug (mem a) (mem b) = Inr r) \<and>
         (\<exists>r. GetRelayPort ndebug (mem a) = Inr r) \<and>
         (\<exists>r. GetRelayHop ndebug (mem a) = Inr r) \<and>
         (\<exists>r. Copy ndebug this a mem = Inr r) \<and>
         (\<exists>r. Move ndebug this a mem = Inr r)"
proof -
  have ia: "Endpoint_inv (mem a)" and ib: "Endpoint_inv (mem b)"
    using assms reachable_inv by blast+
  show ?thesis
    using ia inv_Type_range [OF ia] operator_eq_total [OF ia ib, of ndebug]
      relay_total [OF ia, of ndebug] Copy_total [of mem a ndebug this]
      Move_total [of mem a ndebug this]
    by (simp add: GetType_def)
qed

theorem assert_branches_unreachable_witness:
  "reachable False {0, 1} two_objects \<and>
   GetType (two_objects 0) \<in> {Type_Unspecified, Type_IP, Type_BTH} \<and>
   (\<exists>r. operator_eq False (two_objects 0) (two_objects 1) = Inr r) \<and>
   (\<exists>r. GetRelayPort False (two_objects 0) = Inr r) \<and>
   (\<exists>r. GetRelayHop False (two_objects 0) = Inr r) \<and>
   (\<exists>r. Copy False 2 0 two_objects = Inr r) \<and>
   (\<exists>r. Move False 2 0 two_objects = Inr r)"
  using reachable_two_objects [of False]
    assert_branches_unreachable [OF reachable_two_objects, of 0 1 False 2]
  by simp

section \<open>Relay coordinates\<close>

lemma held_value_idem: "held_value (held_value x) = held_value x"
  by (simp add: held_value_def)

lemma relay_held_value:
  "GetRelayPort ndebug (held_value x) = GetRelayPort ndebug x \<and>
   GetRelayHop ndebug (held_value x) = GetRelayHop ndebug x"
  by (simp add: held_value_def accessor_defs Type_distinct)

lemma derived_held_value:
  "derived ndebug x y \<Longrightarrow> Endpoint_inv x \<Longrightarrow>
   Endpoint_inv y \<and> held_value y = held_value x"
proof (induction rule: derived.induct)
  case origin
  then show ?case by simp
next
  case (by_copy_construction mem other this mem')
  then show ?case
    by (auto simp: Endpoint_copy_eq held_value_inv held_value_idem)
next
  case (by_move_construction mem other this mem')
  then show ?case
    by (auto simp: Endpoint_move_eq held_value_inv held_value_idem)
next
  case (by_copy_assignment mem other this mem')
  then show ?case
    by (auto simp: assign_copy_eq held_value_inv held_value_idem split: if_splits)
next
  case (by_move_assignment mem other this mem')
  then show ?case
    by (auto simp: assign_move_eq held_value_inv held_value_idem split: if_splits)
qed

lemma derived_relay:
  assumes "derived ndebug x y" and "Endpoint_inv x"
  shows "GetRelayPort ndebug y = GetRelayPort ndebug x \<and>
         GetRelayHop ndebug y = GetRelayHop ndebug x"
proof -
  have "held_value y = held_value x"
    using derived_held_value [OF assms] by simp
  then show ?thesis
    using relay_held_value [of ndebug x] relay_held_value [of ndebug y] by simp
qed

text \<open>
  C6. For every Endpoint constructed from a concrete endpoint with a valid protocol, and for
  every object reached from it by a chain of copy and move constructions and assignments,
  \<open>GetRelayPort()\<close> and \<open>GetRelayHop()\<close> return the relay port and relay hop stored
  in the original concrete endpoint; on an Endpoint whose type is Unspecified both return 0.
\<close>
theorem relay_coordinates_carried:
  "(IPEndpoint_GetProtocol e \<in> {TCP, UDP, ICMP} \<longrightarrow>
      (\<exists>mem0. Endpoint_IP ndebug p e mem = Inr mem0 \<and>
         (\<forall>y. derived ndebug (mem0 p) y \<longrightarrow>
            GetRelayPort ndebug y = Inr (IPEndpoint_GetRelayPort e) \<and>
            GetRelayHop ndebug y = Inr (IPEndpoint_GetRelayHop e)))) \<and>
   (BTHEndpoint_GetProtocol b = RFCOMM \<longrightarrow>
      (\<exists>mem0. Endpoint_BTH ndebug p b mem = Inr mem0 \<and>
         (\<forall>y. derived ndebug (mem0 p) y \<longrightarrow>
            GetRelayPort ndebug y = Inr (BTHEndpoint_GetRelayPort b) \<and>
            GetRelayHop ndebug y = Inr (BTHEndpoint_GetRelayHop b)))) \<and>
   (GetType ep = Type_Unspecified \<longrightarrow>
      GetRelayPort ndebug ep = Inr 0 \<and> GetRelayHop ndebug ep = Inr 0)"
proof (intro conjI impI)
  assume v: "IPEndpoint_GetProtocol e \<in> {TCP, UDP, ICMP}"
  let ?x = "\<lparr>m_Type = Type_IP, m_Union = IPStore e\<rparr>"
  have c: "Endpoint_IP ndebug p e mem = Inr (mem(p := ?x))"
    using v by (simp add: Endpoint_IP_eq)
  have i: "Endpoint_inv ?x" using v by (rule IP_inv)
  have r: "GetRelayPort ndebug ?x = Inr (IPEndpoint_GetRelayPort e)"
    "GetRelayHop ndebug ?x = Inr (IPEndpoint_GetRelayHop e)"
    by (simp_all add: accessor_defs helper_defs)
  have "\<forall>y. derived ndebug ?x y \<longrightarrow>
      GetRelayPort ndebug y = Inr (IPEndpoint_GetRelayPort e) \<and>
      GetRelayHop ndebug y = Inr (IPEndpoint_GetRelayHop e)"
    using derived_relay [OF _ i] r by simp
  with c show "\<exists>mem0. Endpoint_IP ndebug p e mem = Inr mem0 \<and>
         (\<forall>y. derived ndebug (mem0 p) y \<longrightarrow>
            GetRelayPort ndebug y = Inr (IPEndpoint_GetRelayPort e) \<and>
            GetRelayHop ndebug y = Inr (IPEndpoint_GetRelayHop e))"
    by simp
next
  assume v: "BTHEndpoint_GetProtocol b = RFCOMM"
  let ?x = "\<lparr>m_Type = Type_BTH, m_Union = BTHStore b\<rparr>"
  have c: "Endpoint_BTH ndebug p b mem = Inr (mem(p := ?x))"
    using v by (simp add: Endpoint_BTH_eq)
  have i: "Endpoint_inv ?x" using v by (rule BTH_inv)
  have r: "GetRelayPort ndebug ?x = Inr (BTHEndpoint_GetRelayPort b)"
    "GetRelayHop ndebug ?x = Inr (BTHEndpoint_GetRelayHop b)"
    by (simp_all add: accessor_defs helper_defs Type_distinct)
  have "\<forall>y. derived ndebug ?x y \<longrightarrow>
      GetRelayPort ndebug y = Inr (BTHEndpoint_GetRelayPort b) \<and>
      GetRelayHop ndebug y = Inr (BTHEndpoint_GetRelayHop b)"
    using derived_relay [OF _ i] r by simp
  with c show "\<exists>mem0. Endpoint_BTH ndebug p b mem = Inr mem0 \<and>
         (\<forall>y. derived ndebug (mem0 p) y \<longrightarrow>
            GetRelayPort ndebug y = Inr (BTHEndpoint_GetRelayPort b) \<and>
            GetRelayHop ndebug y = Inr (BTHEndpoint_GetRelayHop b))"
    by simp
next
  assume "GetType ep = Type_Unspecified"
  then show "GetRelayPort ndebug ep = Inr 0" "GetRelayHop ndebug ep = Inr 0"
    by (simp_all add: accessor_defs Type_distinct)
qed


theorem relay_coordinates_carried_witness:
  "\<exists>mem0 mem1 mem2.
     Endpoint_IP False 0 example_IP raw_memory = Inr mem0 \<and>
     Endpoint_copy False 1 0 mem0 = Inr mem1 \<and>
     Endpoint_move False 2 1 mem1 = Inr mem2 \<and>
     derived False (mem0 0) (mem2 2) \<and>
     GetRelayPort False (mem2 2) = Inr 42 \<and> GetRelayHop False (mem2 2) = Inr 2"
proof -
  have v: "IPEndpoint_GetProtocol example_IP \<in> {TCP, UDP, ICMP}"
    by (simp add: IPEndpoint_GetProtocol_def example_IP_def)
  from relay_coordinates_carried [of example_IP False 0 raw_memory] v
  obtain mem0 where c0: "Endpoint_IP False 0 example_IP raw_memory = Inr mem0"
    and d: "\<And>y. derived False (mem0 0) y \<Longrightarrow>
      GetRelayPort False y = Inr (IPEndpoint_GetRelayPort example_IP) \<and>
      GetRelayHop False y = Inr (IPEndpoint_GetRelayHop example_IP)"
    by blast
  have i0: "Endpoint_inv (mem0 0)"
    using c0 v by (auto simp: Endpoint_IP_eq IP_inv)
  define mem1 where "mem1 = mem0(1 := held_value (mem0 0))"
  have c1: "Endpoint_copy False 1 0 mem0 = Inr mem1"
    using Endpoint_copy_eq [of mem0 0 1 False] i0 by (simp add: mem1_def)
  have i1: "Endpoint_inv (mem1 1)"
    by (simp add: mem1_def held_value_inv i0)
  define mem2 where
    "mem2 = mem1(1 := (mem1 1)\<lparr>m_Type := Type_Unspecified\<rparr>, 2 := held_value (mem1 1))"
  have c2: "Endpoint_move False 2 1 mem1 = Inr mem2"
    using Endpoint_move_eq [of mem1 1 2 False] i1 by (simp add: mem2_def)
  have d1: "derived False (mem0 0) (mem1 1)"
    using derived.by_copy_construction
      [where ndebug = False and x = "mem0 0" and mem = mem0 and other = 0 and this = 1,
        OF derived.origin _ c1]
    by simp
  have d2: "derived False (mem0 0) (mem2 2)"
    using derived.by_move_construction
      [where ndebug = False and x = "mem0 0" and mem = mem1 and other = 1 and this = 2,
        OF d1 _ c2]
    by simp
  from d [OF d2]
  have "GetRelayPort False (mem2 2) = Inr 42 \<and> GetRelayHop False (mem2 2) = Inr 2"
    by (simp add: IPEndpoint_GetRelayPort_def IPEndpoint_GetRelayHop_def example_IP_def)
  with c0 c1 c2 d2 show ?thesis by blast
qed

text \<open>
  C7, as stated, fails for wrapped payloads: two IPEndpoints with identical address, port
  and protocol Unspecified and relay hops 2 and 3 are unequal as IPEndpoints, but each wraps
  to an Unspecified Endpoint, and the two Endpoints compare equal.
\<close>
theorem wrapped_unconfigured_compare_equal:
  "ip_address unconfigured_IP = ip_address (unconfigured_IP\<lparr>ip_relay_hop := 3\<rparr>) \<and>
   ip_port unconfigured_IP = ip_port (unconfigured_IP\<lparr>ip_relay_hop := 3\<rparr>) \<and>
   ip_protocol unconfigured_IP = ip_protocol (unconfigured_IP\<lparr>ip_relay_hop := 3\<rparr>) \<and>
   ip_relay_hop unconfigured_IP \<noteq> ip_relay_hop (unconfigured_IP\<lparr>ip_relay_hop := 3\<rparr>) \<and>
   \<not> IPEndpoint_eq unconfigured_IP (unconfigured_IP\<lparr>ip_relay_hop := 3\<rparr>) \<and>
   Endpoint_IP False 0 unconfigured_IP raw_memory =
     Inr (raw_memory(0 := \<lparr>m_Type = Type_Unspecified, m_Union = Dummy 0\<rparr>)) \<and>
   Endpoint_IP False 1 (unconfigured_IP\<lparr>ip_relay_hop := 3\<rparr>)
     (raw_memory(0 := \<lparr>m_Type = Type_Unspecified, m_Union = Dummy 0\<rparr>)) =
     Inr two_unspecified \<and>
   operator_eq False (two_unspecified 0) (two_unspecified 1) = Inr True"
  by (simp add: unconfigured_IP_def example_IP_def IPEndpoint_eq_def Endpoint_IP_eq
      IPEndpoint_GetProtocol_def two_unspecified_def operator_eq_def Type_distinct)

text \<open>
  C7, amended. Two IPEndpoints with identical address, port and protocol but a different
  relay hop, or a different relay port, compare unequal; two concrete endpoints identical in
  address, port or channel, protocol, relay port and relay hop compare equal. Through
  Endpoint's equality the same distinction is observed when both wrapped payloads have a
  valid protocol: \<open>operator==\<close> then returns what the payloads' own equality returns. Two
  wrapped payloads whose protocol is Unspecified are two Unspecified Endpoints and compare
  equal, whatever their relay coordinates.
\<close>
theorem equality_respects_relay_coordinates:
  "(ip_address x = ip_address y \<and> ip_port x = ip_port y \<and> ip_protocol x = ip_protocol y \<and>
      (ip_relay_hop x \<noteq> ip_relay_hop y \<or> ip_relay_port x \<noteq> ip_relay_port y)
      \<longrightarrow> \<not> IPEndpoint_eq x y) \<and>
   (ip_address x = ip_address y \<and> ip_port x = ip_port y \<and> ip_protocol x = ip_protocol y \<and>
      ip_relay_port x = ip_relay_port y \<and> ip_relay_hop x = ip_relay_hop y
      \<longrightarrow> IPEndpoint_eq x y) \<and>
   (bth_address u = bth_address v \<and> bth_port u = bth_port v \<and>
      bth_protocol u = bth_protocol v \<and>
      bth_relay_port u = bth_relay_port v \<and> bth_relay_hop u = bth_relay_hop v
      \<longrightarrow> BTHEndpoint_eq u v) \<and>
   (IPEndpoint_GetProtocol x \<in> {TCP, UDP, ICMP} \<and>
    IPEndpoint_GetProtocol y \<in> {TCP, UDP, ICMP} \<and> p \<noteq> q \<longrightarrow>
      (\<exists>mem1 mem2. Endpoint_IP ndebug p x mem = Inr mem1 \<and>
         Endpoint_IP ndebug q y mem1 = Inr mem2 \<and>
         operator_eq ndebug (mem2 p) (mem2 q) = Inr (IPEndpoint_eq x y))) \<and>
   (BTHEndpoint_GetProtocol u = RFCOMM \<and> BTHEndpoint_GetProtocol v = RFCOMM \<and> p \<noteq> q \<longrightarrow>
      (\<exists>mem1 mem2. Endpoint_BTH ndebug p u mem = Inr mem1 \<and>
         Endpoint_BTH ndebug q v mem1 = Inr mem2 \<and>
         operator_eq ndebug (mem2 p) (mem2 q) = Inr (BTHEndpoint_eq u v))) \<and>
   (IPEndpoint_GetProtocol x = Protocol_Unspecified \<and>
    IPEndpoint_GetProtocol y = Protocol_Unspecified \<and> p \<noteq> q \<longrightarrow>
      (\<exists>mem1 mem2. Endpoint_IP ndebug p x mem = Inr mem1 \<and>
         Endpoint_IP ndebug q y mem1 = Inr mem2 \<and>
         operator_eq ndebug (mem2 p) (mem2 q) = Inr True)) \<and>
   (BTHEndpoint_GetProtocol u = Protocol_Unspecified \<and>
    BTHEndpoint_GetProtocol v = Protocol_Unspecified \<and> p \<noteq> q \<longrightarrow>
      (\<exists>mem1 mem2. Endpoint_BTH ndebug p u mem = Inr mem1 \<and>
         Endpoint_BTH ndebug q v mem1 = Inr mem2 \<and>
         operator_eq ndebug (mem2 p) (mem2 q) = Inr True))"
  by (auto simp: IPEndpoint_eq_def BTHEndpoint_eq_def Endpoint_IP_eq Endpoint_BTH_eq
      operator_eq_def helper_defs Type_distinct)

theorem equality_respects_relay_coordinates_witness:
  "\<not> IPEndpoint_eq example_IP (example_IP\<lparr>ip_relay_hop := 3\<rparr>) \<and>
   \<not> IPEndpoint_eq example_IP (example_IP\<lparr>ip_relay_port := 43\<rparr>) \<and>
   IPEndpoint_eq example_IP example_IP \<and>
   BTHEndpoint_eq example_BTH example_BTH \<and>
   (\<exists>mem1 mem2. Endpoint_IP False 0 example_IP raw_memory = Inr mem1 \<and>
      Endpoint_IP False 1 (example_IP\<lparr>ip_relay_hop := 3\<rparr>) mem1 = Inr mem2 \<and>
      operator_eq False (mem2 0) (mem2 1) = Inr False) \<and>
   (\<exists>mem1 mem2. Endpoint_IP False 0 example_IP raw_memory = Inr mem1 \<and>
      Endpoint_IP False 1 example_IP mem1 = Inr mem2 \<and>
      operator_eq False (mem2 0) (mem2 1) = Inr True) \<and>
   (\<exists>mem1 mem2. Endpoint_BTH False 0 example_BTH raw_memory = Inr mem1 \<and>
      Endpoint_BTH False 1 example_BTH mem1 = Inr mem2 \<and>
      operator_eq False (mem2 0) (mem2 1) = Inr True) \<and>
   (\<exists>mem1 mem2. Endpoint_IP False 0 unconfigured_IP raw_memory = Inr mem1 \<and>
      Endpoint_IP False 1 (unconfigured_IP\<lparr>ip_relay_hop := 3\<rparr>) mem1 = Inr mem2 \<and>
      operator_eq False (mem2 0) (mem2 1) = Inr True) \<and>
   (\<exists>mem1 mem2. Endpoint_BTH False 0 unconfigured_BTH raw_memory = Inr mem1 \<and>
      Endpoint_BTH False 1 (unconfigured_BTH\<lparr>bth_relay_hop := 3\<rparr>) mem1 = Inr mem2 \<and>
      operator_eq False (mem2 0) (mem2 1) = Inr True)"
proof -
  have v: "IPEndpoint_GetProtocol example_IP \<in> {TCP, UDP, ICMP}"
    "IPEndpoint_GetProtocol (example_IP\<lparr>ip_relay_hop := 3\<rparr>) \<in> {TCP, UDP, ICMP}"
    "BTHEndpoint_GetProtocol example_BTH = RFCOMM"
    by (simp_all add: IPEndpoint_GetProtocol_def BTHEndpoint_GetProtocol_def
        example_IP_def example_BTH_def)
  have w: "IPEndpoint_GetProtocol unconfigured_IP = Protocol_Unspecified"
    "IPEndpoint_GetProtocol (unconfigured_IP\<lparr>ip_relay_hop := 3\<rparr>) = Protocol_Unspecified"
    "BTHEndpoint_GetProtocol unconfigured_BTH = Protocol_Unspecified"
    "BTHEndpoint_GetProtocol (unconfigured_BTH\<lparr>bth_relay_hop := 3\<rparr>) = Protocol_Unspecified"
    by (simp_all add: IPEndpoint_GetProtocol_def BTHEndpoint_GetProtocol_def
        unconfigured_IP_def unconfigured_BTH_def)
  have h: "ip_relay_hop example_IP \<noteq> ip_relay_hop (example_IP\<lparr>ip_relay_hop := 3\<rparr>)"
    "ip_relay_port example_IP \<noteq> ip_relay_port (example_IP\<lparr>ip_relay_port := 43\<rparr>)"
    by (simp_all add: example_IP_def)
  have a: "\<not> IPEndpoint_eq example_IP (example_IP\<lparr>ip_relay_hop := 3\<rparr>)"
    using h equality_respects_relay_coordinates
      [of example_IP "example_IP\<lparr>ip_relay_hop := 3\<rparr>"] by simp
  have b: "\<not> IPEndpoint_eq example_IP (example_IP\<lparr>ip_relay_port := 43\<rparr>)"
    using h equality_respects_relay_coordinates
      [of example_IP "example_IP\<lparr>ip_relay_port := 43\<rparr>"] by simp
  have c: "IPEndpoint_eq example_IP example_IP" "BTHEndpoint_eq example_BTH example_BTH"
    using equality_respects_relay_coordinates
      [of example_IP example_IP example_BTH example_BTH] by simp_all
  have d: "\<exists>mem1 mem2. Endpoint_IP False 0 example_IP raw_memory = Inr mem1 \<and>
      Endpoint_IP False 1 (example_IP\<lparr>ip_relay_hop := 3\<rparr>) mem1 = Inr mem2 \<and>
      operator_eq False (mem2 0) (mem2 1) = Inr False"
    using v equality_respects_relay_coordinates
      [of example_IP "example_IP\<lparr>ip_relay_hop := 3\<rparr>" example_BTH example_BTH 0 1
        False raw_memory]
    by (simp add: a)
  have e: "(\<exists>mem1 mem2. Endpoint_IP False 0 example_IP raw_memory = Inr mem1 \<and>
      Endpoint_IP False 1 example_IP mem1 = Inr mem2 \<and>
      operator_eq False (mem2 0) (mem2 1) = Inr True) \<and>
   (\<exists>mem1 mem2. Endpoint_BTH False 0 example_BTH raw_memory = Inr mem1 \<and>
      Endpoint_BTH False 1 example_BTH mem1 = Inr mem2 \<and>
      operator_eq False (mem2 0) (mem2 1) = Inr True)"
    using v equality_respects_relay_coordinates
      [of example_IP example_IP example_BTH example_BTH 0 1 False raw_memory]
    by (simp add: c)
  have f: "(\<exists>mem1 mem2. Endpoint_IP False 0 unconfigured_IP raw_memory = Inr mem1 \<and>
      Endpoint_IP False 1 (unconfigured_IP\<lparr>ip_relay_hop := 3\<rparr>) mem1 = Inr mem2 \<and>
      operator_eq False (mem2 0) (mem2 1) = Inr True) \<and>
   (\<exists>mem1 mem2. Endpoint_BTH False 0 unconfigured_BTH raw_memory = Inr mem1 \<and>
      Endpoint_BTH False 1 (unconfigured_BTH\<lparr>bth_relay_hop := 3\<rparr>) mem1 = Inr mem2 \<and>
      operator_eq False (mem2 0) (mem2 1) = Inr True)"
    using w equality_respects_relay_coordinates
      [of unconfigured_IP "unconfigured_IP\<lparr>ip_relay_hop := 3\<rparr>"
        unconfigured_BTH "unconfigured_BTH\<lparr>bth_relay_hop := 3\<rparr>" 0 1 False raw_memory]
    by simp
  show ?thesis using a b c d e f by blast
qed

end
